theory Spec2Isabelle
  imports Main "HOL-Library.Char_ord" "HOL-Library.List_Lexorder"
begin

section \<open>Values, errors and the store\<close>

text \<open>
  JavaScript values as far as \<^verbatim>\<open>models/user.js\<close> and the message routes handle them:
  the rows node-postgres returns and the objects the functions build are \<open>Obj\<close>
  association lists from property name to value; a timestamp column is \<open>Time\<close>.
\<close>

datatype val =
    Undefined
  | Null
  | Bool bool
  | Num nat
  | Time nat
  | Str string
  | Obj "(string \<times> val) list"
  | Arr "val list"

text \<open>
  Everything a function can fail with. \<open>ExpressError msg status\<close> is the source's
  \<^verbatim>\<open>new ExpressError(msg, status)\<close>; \<open>SqlError\<close> is a rejection of \<^verbatim>\<open>db.query\<close>;
  \<open>ReferenceError\<close> and \<open>TypeError\<close> are what JavaScript throws, \<open>BcryptError\<close> what
  bcrypt throws. \<open>NotFoundError\<close> is the error kind of the spec's section 7, used by the
  message model only.
\<close>

datatype err =
    ExpressError string nat
  | SqlError string
  | ReferenceError string
  | TypeError string
  | BcryptError string
  | NotFoundError

text \<open>
  Modelled from the spec: the persisted schema of section 6 (the table declarations are not
  among the sources). The columns are those the statements of \<^verbatim>\<open>models/user.js\<close> name;
  the field prefixes follow the aliases \<^verbatim>\<open>users AS u\<close> and \<^verbatim>\<open>messages AS m\<close>.
\<close>

record user_row =
  u_username :: string
  u_password :: string
  u_first_name :: string
  u_last_name :: string
  u_phone :: string
  u_join_at :: nat
  u_last_login_at :: nat

record message_row =
  m_id :: nat
  m_from_username :: string
  m_to_username :: string
  m_body :: string
  m_sent_at :: nat
  m_read_at :: "nat option"

record database =
  users :: "user_row list"
  messages :: "message_row list"

text \<open>
  What the module requires from outside: the bcrypt primitives and the work factor of
  \<^verbatim>\<open>config\<close>.
\<close>

record env =
  bcrypt_hash :: "string \<Rightarrow> nat \<Rightarrow> string"
  bcrypt_compare :: "string \<Rightarrow> string \<Rightarrow> bool"
  BCRYPT_WORK_FACTOR :: nat

subsection \<open>Property access\<close>

definition obj_get :: "val \<Rightarrow> string \<Rightarrow> val" where
  "obj_get v k =
     (case v of
        Obj kvs \<Rightarrow> (case map_of kvs k of Some x \<Rightarrow> x | None \<Rightarrow> Undefined)
      | _ \<Rightarrow> Undefined)"

text \<open>\<^verbatim>\<open>result.rows[0]\<close>: \<^verbatim>\<open>undefined\<close> when there is no row.\<close>

definition first_row :: "val list \<Rightarrow> val" where
  "first_row rows = (case rows of [] \<Rightarrow> Undefined | r # _ \<Rightarrow> r)"

section \<open>The statements of models/user.js\<close>

text \<open>
  One constructor for each SQL text passed to \<^verbatim>\<open>db.query\<close>, in the order of the file:
  \<^item> \<open>INSERT_INTO_users\<close>: \<^verbatim>\<open>INSERT INTO users (username, password, first_name, last_name,
    phone, join_at, last_login_at) VALUES ($1, $2, $3, $4, $5, current_timestamp,
    current_timestamp) RETURNING username, password, first_name, last_name, phone\<close>
  \<^item> \<open>SELECT_password_FROM_users\<close>: \<^verbatim>\<open>SELECT username, password FROM users WHERE username = $1\<close>
  \<^item> \<open>UPDATE_users_SET_last_login_at\<close>: \<^verbatim>\<open>UPDATE users SET last_login_at = current_timestamp
    WHERE username = $1 RETURNING username\<close>
  \<^item> \<open>SELECT_FROM_users_ORDER_BY_username\<close>: \<^verbatim>\<open>SELECT username, first_name, last_name, phone
    FROM users ORDER BY username\<close>
  \<^item> \<open>SELECT_FROM_users_WHERE_username\<close>: \<^verbatim>\<open>SELECT username, first_name, last_name, phone,
    join_at, last_login_at FROM users WHERE username = $1\<close>
  \<^item> \<open>SELECT_FROM_messages_WHERE_from_username\<close>: \<^verbatim>\<open>SELECT id, to_username, body, sent_at,
    read_at FROM messages WHERE from_username = $1\<close>
  \<^item> \<open>SELECT_WHERE_username\<close>: \<^verbatim>\<open>SELECT username, first_name, last_name, phone
    WHERE username = $1\<close> (the text has no FROM clause)
  \<^item> \<open>SELECT_FROM_messages_JOIN_users\<close>: \<^verbatim>\<open>SELECT m.id, m.from_username, m.body, m.sent_at,
    m.read_at, u.id, u.first_name, u.last_name, u.phone FROM messages AS m JOIN users AS u
    ON m.from_username = u.username WHERE to_username = $1\<close>
\<close>

datatype stmt =
    INSERT_INTO_users
  | SELECT_password_FROM_users
  | UPDATE_users_SET_last_login_at
  | SELECT_FROM_users_ORDER_BY_username
  | SELECT_FROM_users_WHERE_username
  | SELECT_FROM_messages_WHERE_from_username
  | SELECT_WHERE_username
  | SELECT_FROM_messages_JOIN_users

text \<open>The highest \<^verbatim>\<open>$n\<close> of each text.\<close>

fun placeholders :: "stmt \<Rightarrow> nat" where
  "placeholders INSERT_INTO_users = 5"
| "placeholders SELECT_password_FROM_users = 1"
| "placeholders UPDATE_users_SET_last_login_at = 1"
| "placeholders SELECT_FROM_users_ORDER_BY_username = 0"
| "placeholders SELECT_FROM_users_WHERE_username = 1"
| "placeholders SELECT_FROM_messages_WHERE_from_username = 1"
| "placeholders SELECT_WHERE_username = 1"
| "placeholders SELECT_FROM_messages_JOIN_users = 1"

text \<open>
  A bound parameter as a text value: \<^verbatim>\<open>undefined\<close> and \<^verbatim>\<open>null\<close> are bound as SQL NULL,
  which equals no column value and which no NOT NULL column accepts.
\<close>

fun the_text :: "val \<Rightarrow> string option" where
  "the_text (Str s) = Some s"
| "the_text _ = None"

definition text_eq :: "string \<Rightarrow> val \<Rightarrow> bool" where
  "text_eq column v = (Some column = the_text v)"

fun nullable_time :: "nat option \<Rightarrow> val" where
  "nullable_time None = Null"
| "nullable_time (Some t) = Time t"

text \<open>The row objects of the SELECT lists and RETURNING clauses.\<close>

definition returning_register :: "user_row \<Rightarrow> val" where
  "returning_register u =
     Obj [(''username'', Str (u_username u)), (''password'', Str (u_password u)),
          (''first_name'', Str (u_first_name u)), (''last_name'', Str (u_last_name u)),
          (''phone'', Str (u_phone u))]"

definition select_username_password :: "user_row \<Rightarrow> val" where
  "select_username_password u =
     Obj [(''username'', Str (u_username u)), (''password'', Str (u_password u))]"

definition select_user_summary :: "user_row \<Rightarrow> val" where
  "select_user_summary u =
     Obj [(''username'', Str (u_username u)), (''first_name'', Str (u_first_name u)),
          (''last_name'', Str (u_last_name u)), (''phone'', Str (u_phone u))]"

definition select_user_detail :: "user_row \<Rightarrow> val" where
  "select_user_detail u =
     Obj [(''username'', Str (u_username u)), (''first_name'', Str (u_first_name u)),
          (''last_name'', Str (u_last_name u)), (''phone'', Str (u_phone u)),
          (''join_at'', Time (u_join_at u)), (''last_login_at'', Time (u_last_login_at u))]"

definition select_outgoing :: "message_row \<Rightarrow> val" where
  "select_outgoing m =
     Obj [(''id'', Num (m_id m)), (''to_username'', Str (m_to_username m)),
          (''body'', Str (m_body m)), (''sent_at'', Time (m_sent_at m)),
          (''read_at'', nullable_time (m_read_at m))]"

text \<open>
  \<^verbatim>\<open>db.query(text, params)\<close> at time \<open>now\<close>: the rows and the store afterwards, or the
  rejection. PostgreSQL refuses a bind whose number of values differs from the number of
  placeholders of the statement; a primary key that exists already; a NULL in a NOT NULL
  column; and a column name that no table of the FROM clause has: \<open>SELECT_WHERE_username\<close>
  has no FROM clause at all, and \<open>SELECT_FROM_messages_JOIN_users\<close> asks for \<^verbatim>\<open>u.id\<close>,
  which is no column of \<^verbatim>\<open>users\<close>. \<^verbatim>\<open>ORDER BY username\<close> is taken in the byte order
  of the strings (collation C); the sources fix no collation.
\<close>

definition db_query :: "nat \<Rightarrow> stmt \<Rightarrow> val list \<Rightarrow> database \<Rightarrow> (err + val list) \<times> database" where
  "db_query now q params db =
     (if length params \<noteq> placeholders q
      then (Inl (SqlError ''bind message supplies the wrong number of parameters''), db)
      else case q of
        INSERT_INTO_users \<Rightarrow>
          (case those (map the_text params) of
             None \<Rightarrow> (Inl (SqlError ''null value violates not-null constraint''), db)
           | Some vs \<Rightarrow>
               if vs ! 0 \<in> set (map u_username (users db))
               then (Inl (SqlError ''duplicate key value violates unique constraint''), db)
               else
                 let row = \<lparr>u_username = vs ! 0, u_password = vs ! 1, u_first_name = vs ! 2,
                            u_last_name = vs ! 3, u_phone = vs ! 4, u_join_at = now,
                            u_last_login_at = now\<rparr>
                 in (Inr [returning_register row], db\<lparr>users := users db @ [row]\<rparr>))
      | SELECT_password_FROM_users \<Rightarrow>
          (Inr (map select_username_password
                  (filter (\<lambda>u. text_eq (u_username u) (params ! 0)) (users db))), db)
      | UPDATE_users_SET_last_login_at \<Rightarrow>
          (Inr (map (\<lambda>u. Obj [(''username'', Str (u_username u))])
                  (filter (\<lambda>u. text_eq (u_username u) (params ! 0)) (users db))),
           db\<lparr>users := map (\<lambda>u. if text_eq (u_username u) (params ! 0)
                                 then u\<lparr>u_last_login_at := now\<rparr> else u) (users db)\<rparr>)
      | SELECT_FROM_users_ORDER_BY_username \<Rightarrow>
          (Inr (map select_user_summary (sort_key u_username (users db))), db)
      | SELECT_FROM_users_WHERE_username \<Rightarrow>
          (Inr (map select_user_detail
                  (filter (\<lambda>u. text_eq (u_username u) (params ! 0)) (users db))), db)
      | SELECT_FROM_messages_WHERE_from_username \<Rightarrow>
          (Inr (map select_outgoing
                  (filter (\<lambda>m. text_eq (m_from_username m) (params ! 0)) (messages db))), db)
      | SELECT_WHERE_username \<Rightarrow>
          (Inl (SqlError ''column username does not exist''), db)
      | SELECT_FROM_messages_JOIN_users \<Rightarrow>
          (Inl (SqlError ''column u.id does not exist''), db))"

section \<open>The User class\<close>

text \<open>
  Every function is a state transformer on the store that yields \<open>Inr v\<close>, the value the
  call resolves with, or \<open>Inl e\<close>, the error it rejects with.

  Every body of the class is \<^verbatim>\<open>try { ... } catch(e) { return next(e) }\<close>: what the body
  throws reaches the handler.
\<close>

fun try_catch ::
  "(err + val) \<times> database \<Rightarrow> (err \<Rightarrow> err + val) \<Rightarrow> (err + val) \<times> database" where
  "try_catch (Inl x, db) handler = (handler x, db)"
| "try_catch (Inr v, db) handler = (Inr v, db)"

text \<open>
  \<^verbatim>\<open>models/user.js\<close> writes \<^verbatim>\<open>return res.json(v)\<close> and \<^verbatim>\<open>return next(e)\<close>, and neither
  declares nor imports \<^verbatim>\<open>res\<close> and \<^verbatim>\<open>next\<close>: evaluating either name throws a
  ReferenceError. So \<^verbatim>\<open>res.json(v)\<close> throws inside the \<^verbatim>\<open>try\<close>, and \<^verbatim>\<open>next(e)\<close> throws
  inside the \<^verbatim>\<open>catch\<close>, which nothing catches: the call rejects.
\<close>

definition User_res_json :: "val \<Rightarrow> err + val" where
  "User_res_json v = Inl (ReferenceError ''res is not defined'')"

definition User_next :: "err \<Rightarrow> err + val" where
  "User_next x = Inl (ReferenceError ''next is not defined'')"

definition User_register ::
  "env \<Rightarrow> nat \<Rightarrow> string \<Rightarrow> string \<Rightarrow> string \<Rightarrow> string \<Rightarrow> string \<Rightarrow> database
     \<Rightarrow> (err + val) \<times> database" where
  "User_register e now username password first_name last_name phone db =
     try_catch
       (let hashedPwd = bcrypt_hash e password (BCRYPT_WORK_FACTOR e) in
        case db_query now INSERT_INTO_users
               [Str username, Str hashedPwd, Str first_name, Str last_name, Str phone] db of
          (Inl x, db') \<Rightarrow> (Inl x, db')
        | (Inr rows, db') \<Rightarrow> (User_res_json (first_row rows), db'))
       User_next"

text \<open>
  \<^verbatim>\<open>return user && await bcrypt.compare(password, user.password)\<close>: when \<^verbatim>\<open>user\<close> is
  \<^verbatim>\<open>undefined\<close>, \<^verbatim>\<open>&&\<close> yields that \<^verbatim>\<open>undefined\<close>.
\<close>

definition User_authenticate ::
  "env \<Rightarrow> nat \<Rightarrow> string \<Rightarrow> string \<Rightarrow> database \<Rightarrow> (err + val) \<times> database" where
  "User_authenticate e now username password db =
     try_catch
       (case db_query now SELECT_password_FROM_users [Str username] db of
          (Inl x, db') \<Rightarrow> (Inl x, db')
        | (Inr rows, db') \<Rightarrow>
            (case first_row rows of
               Undefined \<Rightarrow> (Inr Undefined, db')
             | user \<Rightarrow>
                 (case obj_get user ''password'' of
                    Str h \<Rightarrow> (Inr (Bool (bcrypt_compare e password h)), db')
                  | _ \<Rightarrow> (Inl (BcryptError ''data and hash must be strings''), db'))))
       User_next"

text \<open>The parameter array is \<^verbatim>\<open>[,username]\<close>: a hole, then the username.\<close>

definition User_updateLoginTimestamp ::
  "nat \<Rightarrow> string \<Rightarrow> database \<Rightarrow> (err + val) \<times> database" where
  "User_updateLoginTimestamp now username db =
     try_catch
       (case db_query now UPDATE_users_SET_last_login_at [Undefined, Str username] db of
          (Inl x, db') \<Rightarrow> (Inl x, db')
        | (Inr rows, db') \<Rightarrow>
            (case rows of
               [] \<Rightarrow> (Inl (ExpressError (username @ '' not found!'') 404), db')
             | r # _ \<Rightarrow> (Inr r, db')))
       User_next"

definition User_all :: "nat \<Rightarrow> database \<Rightarrow> (err + val) \<times> database" where
  "User_all now db =
     try_catch
       (case db_query now SELECT_FROM_users_ORDER_BY_username [] db of
          (Inl x, db') \<Rightarrow> (Inl x, db')
        | (Inr rows, db') \<Rightarrow> (User_res_json (Arr rows), db'))
       User_next"

definition User_get :: "nat \<Rightarrow> string \<Rightarrow> database \<Rightarrow> (err + val) \<times> database" where
  "User_get now username db =
     try_catch
       (case db_query now SELECT_FROM_users_WHERE_username [Str username] db of
          (Inl x, db') \<Rightarrow> (Inl x, db')
        | (Inr rows, db') \<Rightarrow>
            (case rows of
               [] \<Rightarrow> (Inl (ExpressError (username @ '' not found!'') 404), db')
             | r # _ \<Rightarrow> (User_res_json r, db')))
       User_next"

text \<open>
  \<^verbatim>\<open>const { id, to_username, body, sent_at, read_at } = result.rows[0]\<close> throws a
  TypeError when there is no row; only the first row is read.
\<close>

definition User_messagesFrom :: "nat \<Rightarrow> string \<Rightarrow> database \<Rightarrow> (err + val) \<times> database" where
  "User_messagesFrom now username db =
     try_catch
       (case db_query now SELECT_FROM_messages_WHERE_from_username [Str username] db of
          (Inl x, db1) \<Rightarrow> (Inl x, db1)
        | (Inr rows, db1) \<Rightarrow>
            (case rows of
               [] \<Rightarrow> (Inl (TypeError ''Cannot destructure property id of undefined''), db1)
             | r # _ \<Rightarrow>
                 (case db_query now SELECT_WHERE_username [obj_get r ''to_username''] db1 of
                    (Inl x, db2) \<Rightarrow> (Inl x, db2)
                  | (Inr toUserRows, db2) \<Rightarrow>
                      (User_res_json
                         (Obj [(''id'', obj_get r ''id''),
                               (''to_user'', first_row toUserRows),
                               (''body'', obj_get r ''body''),
                               (''sent_at'', obj_get r ''sent_at''),
                               (''read_at'', obj_get r ''read_at'')]), db2))))
       User_next"

definition User_messagesTo :: "nat \<Rightarrow> string \<Rightarrow> database \<Rightarrow> (err + val) \<times> database" where
  "User_messagesTo now username db =
     try_catch
       (case db_query now SELECT_FROM_messages_JOIN_users [Str username] db of
          (Inl x, db') \<Rightarrow> (Inl x, db')
        | (Inr rows, db') \<Rightarrow>
            (Inr (Arr (map (\<lambda>r.
                    Obj [(''id'', obj_get r ''id''),
                         (''from_user'',
                            Obj [(''username'', obj_get r ''from_username''),
                                 (''first_name'', obj_get r ''first_name''),
                                 (''last_name'', obj_get r ''last_name''),
                                 (''phone'', obj_get r ''phone'')]),
                         (''body'', obj_get r ''body''),
                         (''sent_at'', obj_get r ''sent_at''),
                         (''read_at'', obj_get r ''read_at'')]) rows)), db'))
       User_next"

section \<open>The message model and its routes\<close>

text \<open>
  The request as the two routes read it: \<^verbatim>\<open>req.params.id\<close>. \<open>req_user\<close> is the username
  of the verified credential, which the spec's section 6 has the routes pass on as the
  requesting user.
\<close>

record request =
  params_id :: nat
  req_user :: string

definition find_user :: "database \<Rightarrow> string \<Rightarrow> user_row option" where
  "find_user db username = find (\<lambda>u. u_username u = username) (users db)"

definition find_message :: "database \<Rightarrow> nat \<Rightarrow> message_row option" where
  "find_message db i = find (\<lambda>m. m_id m = i) (messages db)"

text \<open>
  Modelled from the spec: \<^verbatim>\<open>Message.get\<close> of \<^verbatim>\<open>models/message.js\<close>, which is not among
  the sources. The route calls it with the id alone. Section 4.2: it fetches the message by
  id, fails with NotFoundError if absent, and resolves \<^verbatim>\<open>from_user\<close> and \<^verbatim>\<open>to_user\<close> as
  participant summaries; the keys are those of the route's comment.
\<close>

definition Message_get :: "nat \<Rightarrow> database \<Rightarrow> (err + val) \<times> database" where
  "Message_get i db =
     (case find_message db i of
        None \<Rightarrow> (Inl NotFoundError, db)
      | Some m \<Rightarrow>
          (case find_user db (m_from_username m) of
             None \<Rightarrow> (Inl NotFoundError, db)
           | Some f \<Rightarrow>
               (case find_user db (m_to_username m) of
                  None \<Rightarrow> (Inl NotFoundError, db)
                | Some t \<Rightarrow>
                    (Inr (Obj [(''id'', Num (m_id m)), (''body'', Str (m_body m)),
                               (''sent_at'', Time (m_sent_at m)),
                               (''read_at'', nullable_time (m_read_at m)),
                               (''from_user'', select_user_summary f),
                               (''to_user'', select_user_summary t)]), db))))"

text \<open>
  Modelled from the spec: \<^verbatim>\<open>Message.markRead\<close> of \<^verbatim>\<open>models/message.js\<close>, which is not
  among the sources. The route calls it with the id alone. Section 4.2: NotFoundError if
  the message is absent, else \<^verbatim>\<open>read_at\<close> is set to the current time and \<^verbatim>\<open>{id, read_at}\<close>
  returned. Section 9: the source has no check for a message that is read already.
\<close>

definition Message_markRead :: "nat \<Rightarrow> nat \<Rightarrow> database \<Rightarrow> (err + val) \<times> database" where
  "Message_markRead now i db =
     (case find_message db i of
        None \<Rightarrow> (Inl NotFoundError, db)
      | Some m \<Rightarrow>
          (Inr (Obj [(''id'', Num i), (''read_at'', Time now)]),
           db\<lparr>messages :=
                map (\<lambda>m. if m_id m = i then m\<lparr>m_read_at := Some now\<rparr> else m)
                  (messages db)\<rparr>))"

text \<open>
  In the routes \<^verbatim>\<open>res\<close> and \<^verbatim>\<open>next\<close> are the handler's own parameters: \<^verbatim>\<open>res.json(v)\<close>
  sends \<open>v\<close>, \<^verbatim>\<open>next(e)\<close> hands \<open>e\<close> on.
\<close>

definition res_json :: "val \<Rightarrow> err + val" where
  "res_json v = Inr v"

definition next_error :: "err \<Rightarrow> err + val" where
  "next_error x = Inl x"

text \<open>
  The two routes by id. Neither reads the requesting user: the handlers use
  \<^verbatim>\<open>req.params.id\<close> only.
\<close>

definition router_get_id :: "request \<Rightarrow> database \<Rightarrow> (err + val) \<times> database" where
  "router_get_id req db =
     try_catch
       (case Message_get (params_id req) db of
          (Inl x, db') \<Rightarrow> (Inl x, db')
        | (Inr message, db') \<Rightarrow> (res_json (Obj [(''message'', message)]), db'))
       next_error"

definition router_post_id_read :: "nat \<Rightarrow> request \<Rightarrow> database \<Rightarrow> (err + val) \<times> database" where
  "router_post_id_read now req db =
     try_catch
       (case Message_markRead now (params_id req) db of
          (Inl x, db') \<Rightarrow> (Inl x, db')
        | (Inr message, db') \<Rightarrow> (res_json (Obj [(''message'', message)]), db'))
       next_error"

section \<open>A small store\<close>

text \<open>
  A stand-in for bcrypt that the kernel can evaluate: the hash is the password behind a
  fixed prefix. Three users; alice has sent bob the messages 1 and 2, both unread.
\<close>

definition toy_env :: env where
  "toy_env =
     \<lparr>bcrypt_hash = (\<lambda>password rounds. ''$2b$'' @ password),
      bcrypt_compare = (\<lambda>password hash. hash = ''$2b$'' @ password),
      BCRYPT_WORK_FACTOR = 12\<rparr>"

definition alice :: user_row where
  "alice = \<lparr>u_username = ''alice'', u_password = ''$2b$pw1'', u_first_name = ''Alice'',
            u_last_name = ''Ames'', u_phone = ''555-0001'', u_join_at = 1,
            u_last_login_at = 1\<rparr>"

definition bob :: user_row where
  "bob = \<lparr>u_username = ''bob'', u_password = ''$2b$pw2'', u_first_name = ''Bob'',
          u_last_name = ''Barr'', u_phone = ''555-0002'', u_join_at = 2,
          u_last_login_at = 2\<rparr>"

definition carol :: user_row where
  "carol = \<lparr>u_username = ''carol'', u_password = ''$2b$pw3'', u_first_name = ''Carol'',
            u_last_name = ''Cole'', u_phone = ''555-0003'', u_join_at = 3,
            u_last_login_at = 3\<rparr>"

text \<open>The row a registration of dave with password pw4 stores at time 7.\<close>

definition dave :: user_row where
  "dave = \<lparr>u_username = ''dave'', u_password = ''$2b$pw4'', u_first_name = ''Dave'',
           u_last_name = ''Dunn'', u_phone = ''555-0004'', u_join_at = 7,
           u_last_login_at = 7\<rparr>"

definition hi :: message_row where
  "hi = \<lparr>m_id = 1, m_from_username = ''alice'', m_to_username = ''bob'', m_body = ''hi'',
         m_sent_at = 4, m_read_at = None\<rparr>"

definition again :: message_row where
  "again = \<lparr>m_id = 2, m_from_username = ''alice'', m_to_username = ''bob'',
            m_body = ''hi again'', m_sent_at = 5, m_read_at = None\<rparr>"

definition store0 :: database where
  "store0 = \<lparr>users = [carol, alice, bob], messages = [hi, again]\<rparr>"

definition request_of :: "nat \<Rightarrow> string \<Rightarrow> request" where
  "request_of i username = \<lparr>params_id = i, req_user = username\<rparr>"

section \<open>The User class never touches the messages\<close>

lemma register_messages:
  "messages (snd (User_register e now username password first_name last_name phone db)) =
     messages db"
  by (simp add: User_register_def db_query_def Let_def User_res_json_def split: option.splits)

lemma authenticate_messages:
  "messages (snd (User_authenticate e now username password db)) = messages db"
  by (simp add: User_authenticate_def db_query_def split: prod.splits sum.splits val.splits)

lemma updateLoginTimestamp_messages:
  "messages (snd (User_updateLoginTimestamp now username db)) = messages db"
  by (simp add: User_updateLoginTimestamp_def db_query_def)

lemma all_messages: "messages (snd (User_all now db)) = messages db"
  by (simp add: User_all_def db_query_def User_res_json_def)

lemma get_messages: "messages (snd (User_get now username db)) = messages db"
  by (simp add: User_get_def db_query_def User_res_json_def split: list.splits)

lemma messagesFrom_messages:
  "messages (snd (User_messagesFrom now username db)) = messages db"
  by (simp add: User_messagesFrom_def db_query_def split: list.splits)

lemma messagesTo_messages: "messages (snd (User_messagesTo now username db)) = messages db"
  by (simp add: User_messagesTo_def db_query_def)

section \<open>Registration\<close>

text \<open>
  Whatever the arguments and the store, \<open>User_register\<close> resolves with no value: it stores
  the row, or the INSERT is refused, and either way the call rejects with the
  ReferenceError of \<^verbatim>\<open>next\<close>.
\<close>

lemma register_never_returns:
  "User_register e now username password first_name last_name phone db =
     (Inl (ReferenceError ''next is not defined''),
      if username \<in> set (map u_username (users db)) then db
      else db\<lparr>users := users db @
             [\<lparr>u_username = username,
               u_password = bcrypt_hash e password (BCRYPT_WORK_FACTOR e),
               u_first_name = first_name, u_last_name = last_name, u_phone = phone,
               u_join_at = now, u_last_login_at = now\<rparr>]\<rparr>)"
  by (simp add: User_register_def db_query_def Let_def User_res_json_def User_next_def)

text \<open>
  C4. Registering dave with password pw4 at time 7 on the store of carol, alice and bob:
  the INSERT stores dave's row and returns the row
  \<^verbatim>\<open>{username, password, first_name, last_name, phone}\<close> whose \<^verbatim>\<open>password\<close> is the
  derived hash; \<open>User_register\<close> then rejects with a ReferenceError and returns no value,
  so none that holds the stored display attributes.
\<close>

theorem register_commits_then_rejects:
  "User_register toy_env 7 ''dave'' ''pw4'' ''Dave'' ''Dunn'' ''555-0004'' store0 =
     (Inl (ReferenceError ''next is not defined''), store0\<lparr>users := [carol, alice, bob, dave]\<rparr>)
   \<and> db_query 7 INSERT_INTO_users
        [Str ''dave'', Str (bcrypt_hash toy_env ''pw4'' (BCRYPT_WORK_FACTOR toy_env)),
         Str ''Dave'', Str ''Dunn'', Str ''555-0004''] store0 =
     (Inr [Obj [(''username'', Str ''dave''), (''password'', Str ''$2b$pw4''),
                (''first_name'', Str ''Dave''), (''last_name'', Str ''Dunn''),
                (''phone'', Str ''555-0004'')]],
      store0\<lparr>users := [carol, alice, bob, dave]\<rparr>)"
  by (simp add: User_register_def db_query_def returning_register_def Let_def
      User_res_json_def User_next_def toy_env_def store0_def alice_def bob_def carol_def
      dave_def)

section \<open>Authentication\<close>

text \<open>
  C10. For every username and password, \<open>User_authenticate\<close> leaves the store as it found
  it, every user row and its \<open>u_last_login_at\<close> included, whatever it yields: true, false,
  \<^verbatim>\<open>undefined\<close> or an error.
\<close>

theorem authenticate_read_only:
  "snd (User_authenticate e now username password db) = db"
  by (simp add: User_authenticate_def db_query_def split: prod.splits sum.splits val.splits)

text \<open>
  What \<open>User_authenticate\<close> yields: \<^verbatim>\<open>undefined\<close> when no row has the username, else the
  verdict of \<^verbatim>\<open>bcrypt.compare\<close> on the stored hash of the row that has it.
\<close>

lemma first_row_filter:
  "first_row (map f (filter P xs)) = (case find P xs of None \<Rightarrow> Undefined | Some x \<Rightarrow> f x)"
  by (induction xs) (simp_all add: first_row_def)

lemma authenticate_value:
  "fst (User_authenticate e now username password db) =
     (case find_user db username of
        None \<Rightarrow> Inr Undefined
      | Some u \<Rightarrow> Inr (Bool (bcrypt_compare e password (u_password u))))"
  by (simp add: User_authenticate_def db_query_def text_eq_def first_row_filter find_user_def
      select_username_password_def obj_get_def split: option.splits)

text \<open>
  C5. On the store of carol, alice and bob, authenticating the unknown username nobody
  yields \<^verbatim>\<open>undefined\<close>, which is not the boolean false.
\<close>

theorem authenticate_unknown_user_undefined:
  "fst (User_authenticate toy_env 9 ''nobody'' ''x'' store0) = Inr Undefined"
  by (simp add: User_authenticate_def db_query_def store0_def alice_def bob_def carol_def
      text_eq_def first_row_def)

section \<open>The login timestamp\<close>

text \<open>
  The statement has one placeholder and the array \<^verbatim>\<open>[,username]\<close> two elements, so the
  query is rejected whatever the username, and no row changes.
\<close>

lemma updateLoginTimestamp_rejected:
  "db_query now UPDATE_users_SET_last_login_at [Undefined, Str username] db =
     (Inl (SqlError ''bind message supplies the wrong number of parameters''), db)
   \<and> User_updateLoginTimestamp now username db =
     (Inl (ReferenceError ''next is not defined''), db)"
  by (simp add: User_updateLoginTimestamp_def db_query_def User_next_def)

text \<open>
  C6. For the stored user alice, at time 9: the UPDATE is rejected,
  \<open>User_updateLoginTimestamp\<close> fails and leaves the store as it was, alice's
  \<open>u_last_login_at\<close> still 1.
\<close>

theorem updateLoginTimestamp_existing_user_fails:
  "User_updateLoginTimestamp 9 ''alice'' store0 =
     (Inl (ReferenceError ''next is not defined''), store0)
   \<and> db_query 9 UPDATE_users_SET_last_login_at [Undefined, Str ''alice''] store0 =
     (Inl (SqlError ''bind message supplies the wrong number of parameters''), store0)
   \<and> map u_last_login_at (users store0) = [3, 1, 2]"
  by (simp add: User_updateLoginTimestamp_def db_query_def User_next_def store0_def alice_def
      bob_def carol_def)

section \<open>The listing of all users\<close>

text \<open>
  Whatever the store, \<open>User_all\<close> returns no listing: its SELECT succeeds, and the call
  rejects with the ReferenceError of \<^verbatim>\<open>next\<close>.
\<close>

lemma all_never_returns:
  "User_all now db = (Inl (ReferenceError ''next is not defined''), db)"
  by (simp add: User_all_def db_query_def User_res_json_def User_next_def)

text \<open>
  C7. On the store of carol, alice and bob, \<open>User_all\<close> returns no summary of any user:
  the call rejects with a ReferenceError.
\<close>

theorem all_rejects:
  "User_all 9 store0 = (Inl (ReferenceError ''next is not defined''), store0)"
  by (simp add: User_all_def db_query_def User_res_json_def User_next_def)

section \<open>The listings of messages\<close>

text \<open>
  C8. alice has sent two messages; \<open>User_messagesFrom\<close> for alice returns no sequence: its
  second statement, which has no FROM clause, is rejected, and the call rejects.
\<close>

theorem messagesFrom_two_sent_fails:
  "User_messagesFrom 9 ''alice'' store0 =
     (Inl (ReferenceError ''next is not defined''), store0)
   \<and> db_query 9 SELECT_WHERE_username [Str ''bob''] store0 =
     (Inl (SqlError ''column username does not exist''), store0)"
  by (simp add: User_messagesFrom_def db_query_def User_next_def store0_def hi_def again_def
      text_eq_def select_outgoing_def obj_get_def)

text \<open>It never returns a value, whatever the store.\<close>

lemma messagesFrom_never_succeeds:
  "User_messagesFrom now username db = (Inl (ReferenceError ''next is not defined''), db)"
  by (simp add: User_messagesFrom_def db_query_def User_next_def split: list.splits)

text \<open>
  C9. bob has received two messages; \<open>User_messagesTo\<close> for bob returns no sequence: its
  statement, which selects \<^verbatim>\<open>u.id\<close>, is rejected, and the call rejects.
\<close>

theorem messagesTo_received_fails:
  "User_messagesTo 9 ''bob'' store0 = (Inl (ReferenceError ''next is not defined''), store0)
   \<and> db_query 9 SELECT_FROM_messages_JOIN_users [Str ''bob''] store0 =
     (Inl (SqlError ''column u.id does not exist''), store0)"
  by (simp add: User_messagesTo_def db_query_def User_next_def)

section \<open>The message routes\<close>

text \<open>Neither route depends on who asks.\<close>

lemma router_get_id_any_user:
  "router_get_id (req\<lparr>req_user := username\<rparr>) db = router_get_id req db"
  by (simp add: router_get_id_def)

lemma router_post_id_read_any_user:
  "router_post_id_read now (req\<lparr>req_user := username\<rparr>) db = router_post_id_read now req db"
  by (simp add: router_post_id_read_def)

text \<open>
  C1. Message 1 is from alice to bob. Asked by carol, the route yields its detail.
\<close>

theorem get_by_outsider_succeeds:
  "router_get_id (request_of 1 ''carol'') store0 =
     (Inr (Obj [(''message'',
                 Obj [(''id'', Num 1), (''body'', Str ''hi''), (''sent_at'', Time 4),
                      (''read_at'', Null), (''from_user'', select_user_summary alice),
                      (''to_user'', select_user_summary bob)])]), store0)"
  by (simp add: router_get_id_def Message_get_def request_of_def store0_def find_message_def
      find_user_def hi_def again_def alice_def bob_def carol_def res_json_def)

text \<open>
  C2. Message 1 is from alice to bob. Asked by alice, its sender, at time 9, the route
  marks it read.
\<close>

theorem markRead_by_sender_succeeds:
  "router_post_id_read 9 (request_of 1 ''alice'') store0 =
     (Inr (Obj [(''message'', Obj [(''id'', Num 1), (''read_at'', Time 9)])]),
      store0\<lparr>messages := [hi\<lparr>m_read_at := Some 9\<rparr>, again]\<rparr>)"
  by (simp add: router_post_id_read_def Message_markRead_def request_of_def store0_def
      find_message_def hi_def again_def res_json_def)

end
